theory Spec2Isabelle
  imports Main "HOL-Library.Word"
begin

section \<open>Go primitives the package relies on\<close>

text \<open>
  Go's \<^verbatim>\<open>int\<close> is taken at its 64-bit width: a value is a \<open>64 word\<close> read as two's
  complement by \<open>sint\<close>. Strings are byte sequences.
\<close>

type_synonym go_int = "64 word"

text \<open>
  The package's sentinel error values, and \<open>OtherError\<close> for every error value that
  comes from elsewhere (the execution layer, the validation of a real server).
\<close>

datatype error =
    InvalidServiceType
  | InvalidServiceScheduler
  | InvalidServerPort
  | OtherError string

datatype panic = IndexOutOfRange

subsection \<open>Formatting and parsing decimal integers\<close>

definition digitChar :: "nat \<Rightarrow> char" where
  "digitChar n = char_of (48 + n)"

definition digitVal :: "char \<Rightarrow> nat option" where
  "digitVal c =
     (let v = (of_char c :: nat) in if 48 \<le> v \<and> v \<le> 57 then Some (v - 48) else None)"

function natDigits :: "nat \<Rightarrow> string" where
  "natDigits n = (if n < 10 then [digitChar n] else natDigits (n div 10) @ [digitChar (n mod 10)])"
  by pat_completeness auto
termination
  by (relation "measure id") auto

text \<open>The verb \<^verbatim>\<open>%d\<close> of \<^verbatim>\<open>fmt.Sprintf\<close> on an \<^verbatim>\<open>int\<close>.\<close>

definition fmt_d :: "go_int \<Rightarrow> string" where
  "fmt_d w = (if sint w < 0 then CHR ''-'' # natDigits (nat (- sint w)) else natDigits (nat (sint w)))"

fun digitsValue :: "nat \<Rightarrow> string \<Rightarrow> nat option" where
  "digitsValue n [] = Some n"
| "digitsValue n (c # cs) =
     (case digitVal c of None \<Rightarrow> None | Some d \<Rightarrow> digitsValue (n * 10 + d) cs)"

text \<open>
  \<^verbatim>\<open>strconv.Atoi\<close>: an optional sign, then at least one decimal digit and nothing
  else; a value outside the range of \<^verbatim>\<open>int\<close> is an error. \<open>None\<close> stands for a
  non-nil error.
\<close>

definition Atoi :: "string \<Rightarrow> go_int option" where
  "Atoi s =
     (let neg = (s \<noteq> [] \<and> hd s = CHR ''-'');
          ds = (if s \<noteq> [] \<and> (hd s = CHR ''-'' \<or> hd s = CHR ''+'') then tl s else s)
      in if ds = [] then None
         else (case digitsValue 0 ds of
                 None \<Rightarrow> None
               | Some n \<Rightarrow>
                   (let v = (if neg then - int n else int n)
                    in if - (2 ^ 63) \<le> v \<and> v < 2 ^ 63 then Some (word_of_int v) else None)))"

subsection \<open>Splitting and joining strings\<close>

text \<open>\<^verbatim>\<open>strings.Split(s, sep)\<close> for a separator of one byte.\<close>

function Split :: "string \<Rightarrow> char \<Rightarrow> string list" where
  "Split s sep =
     (case dropWhile (\<lambda>c. c \<noteq> sep) s of
        [] \<Rightarrow> [s]
      | _ # rest \<Rightarrow> takeWhile (\<lambda>c. c \<noteq> sep) s # Split rest sep)"
  by pat_completeness auto
termination
proof (relation "measure (\<lambda>(s, sep). length s)")
  show "wf (measure (\<lambda>(s, sep). length s))" by simp
next
  fix s :: string and sep :: char and x :: char and rest :: string
  assume "dropWhile (\<lambda>c. c \<noteq> sep) s = x # rest"
  then have "length (x # rest) \<le> length s"
    using length_dropWhile_le [of "\<lambda>c. c \<noteq> sep" s] by simp
  then show "((rest, sep), (s, sep)) \<in> measure (\<lambda>(s, sep). length s)" by simp
qed

declare Split.simps [simp del]

fun Join :: "string list \<Rightarrow> string \<Rightarrow> string" where
  "Join [] sep = []"
| "Join [a] sep = a"
| "Join (a # b # r) sep = a @ sep @ Join (b # r) sep"

subsection \<open>Splitting an address into host and port\<close>

fun indexByte :: "string \<Rightarrow> char \<Rightarrow> nat option" where
  "indexByte [] c = None"
| "indexByte (x # xs) c = (if x = c then Some 0 else map_option Suc (indexByte xs c))"

fun lastIndexByte :: "string \<Rightarrow> char \<Rightarrow> nat option" where
  "lastIndexByte [] c = None"
| "lastIndexByte (x # xs) c =
     (case lastIndexByte xs c of
        Some i \<Rightarrow> Some (Suc i)
      | None \<Rightarrow> if x = c then Some 0 else None)"

text \<open>
  \<^verbatim>\<open>net.SplitHostPort\<close>: the port starts after the last colon; a host in square
  brackets loses them; a second colon outside brackets, a missing port and a stray
  bracket are errors (\<open>None\<close>).
\<close>

definition SplitHostPort :: "string \<Rightarrow> (string \<times> string) option" where
  "SplitHostPort hostport =
     (case lastIndexByte hostport CHR '':'' of
        None \<Rightarrow> None
      | Some i \<Rightarrow>
          if hd hostport = CHR ''[''
          then (case indexByte hostport CHR '']'' of
                  None \<Rightarrow> None
                | Some e \<Rightarrow>
                    if e + 1 = length hostport then None
                    else if e + 1 = i
                    then if CHR ''['' \<in> set (drop 1 hostport) then None
                         else if CHR '']'' \<in> set (drop (e + 1) hostport) then None
                         else Some (take (e - 1) (drop 1 hostport), drop (i + 1) hostport)
                    else None)
          else if CHR '':'' \<in> set (take i hostport) then None
               else if CHR ''['' \<in> set hostport then None
               else if CHR '']'' \<in> set hostport then None
               else Some (take i hostport, drop (i + 1) hostport))"

definition parseHostPort :: "string \<Rightarrow> string \<times> go_int" where
  "parseHostPort hostPort =
     (case SplitHostPort hostPort of
        None \<Rightarrow> (hostPort, 0)
      | Some (host, port) \<Rightarrow>
          (case Atoi port of
             None \<Rightarrow> (hostPort, 0)
           | Some intPort \<Rightarrow> (host, intPort)))"

section \<open>The data model\<close>

text \<open>
  A real server. The service code reads the fields \<open>Host\<close>, \<open>Port\<close> and
  \<open>Forwarder\<close>; whatever else a server carries is the record's extension. The
  server's own \<^verbatim>\<open>Validate\<close> and \<^verbatim>\<open>String\<close> methods are parameters
  (\<open>srvValidate\<close>, \<open>srvString\<close>) of the service operations that call them.
\<close>

record Server =
  Host :: string
  Port :: go_int
  Forwarder :: string

record 'a Service =
  Host :: string
  Port :: go_int
  Type :: string
  Scheduler :: string
  Persistence :: go_int
  Netmask :: string
  Servers :: "'a Server_scheme list"

text \<open>Indexing a Go map of strings: a missing key gives the empty string.\<close>

definition mapIndex :: "(string \<rightharpoonup> string) \<Rightarrow> string \<Rightarrow> string" where
  "mapIndex m k = (case m k of None \<Rightarrow> [] | Some v \<Rightarrow> v)"

definition ServiceTypeFlag :: "string \<rightharpoonup> string" where
  "ServiceTypeFlag =
     map_of [(''tcp'', ''-t''), (''udp'', ''-u''), (''fwmark'', ''-f''), ('''', ''-t'')]"

definition ServiceSchedulerFlag :: "string \<rightharpoonup> string" where
  "ServiceSchedulerFlag =
     map_of [(''rr'', ''rr''), (''wrr'', ''wrr''), (''lc'', ''lc''), (''wlc'', ''wlc''),
             (''lblc'', ''lblc''), (''lblcr'', ''lblcr''), (''dh'', ''dh''), (''sh'', ''sh''),
             (''sed'', ''sed''), (''nq'', ''nq''), ('''', ''wlc'')]"

section \<open>Validation\<close>

text \<open>The loop of \<^verbatim>\<open>Validate\<close> over the servers of a service with port \<open>port\<close>.\<close>

fun Validate_servers ::
  "('a Server_scheme \<Rightarrow> error option) \<Rightarrow> go_int \<Rightarrow> 'a Server_scheme list \<Rightarrow> error option"
where
  "Validate_servers srvValidate port [] = None"
| "Validate_servers srvValidate port (server # rest) =
     (case srvValidate server of
        Some err \<Rightarrow> Some err
      | None \<Rightarrow>
          if Forwarder server \<noteq> ''m'' \<and> port \<noteq> Server.Port server
          then Some InvalidServerPort
          else Validate_servers srvValidate port rest)"

definition Validate :: "('a Server_scheme \<Rightarrow> error option) \<Rightarrow> 'a Service \<Rightarrow> error option" where
  "Validate srvValidate s =
     (if ServiceTypeFlag (Type s) = None then Some InvalidServiceType
      else if ServiceSchedulerFlag (Scheduler s) = None then Some InvalidServiceScheduler
      else Validate_servers srvValidate (Port s) (Servers s))"

section \<open>Argument lists and the text format\<close>

definition getNetmask :: "'a Service \<Rightarrow> string list" where
  "getNetmask s = (if Netmask s \<noteq> [] then [''-M'', Netmask s] else [])"

definition getPersistence :: "'a Service \<Rightarrow> string list" where
  "getPersistence s = (if Persistence s \<noteq> 0 then [''-p'', fmt_d (Persistence s)] else [])"

definition getHostPort :: "'a Service \<Rightarrow> string" where
  "getHostPort s = (if Port s = 0 then Host s else Host s @ '':'' @ fmt_d (Port s))"

text \<open>One line of \<^verbatim>\<open>String\<close> for a server, \<^verbatim>\<open>"-a %s %s:%d -r %s\n"\<close>.\<close>

definition serverLine ::
  "('a Server_scheme \<Rightarrow> string) \<Rightarrow> 'a Service \<Rightarrow> 'a Server_scheme \<Rightarrow> string"
where
  "serverLine srvString s server =
     ''-a '' @ mapIndex ServiceTypeFlag (Type s) @ '' '' @ Host s @ '':'' @ fmt_d (Port s)
       @ '' -r '' @ srvString server @ [CHR 0x0A]"

definition String :: "('a Server_scheme \<Rightarrow> string) \<Rightarrow> 'a Service \<Rightarrow> string" where
  "String srvString s =
     concat
       ((''-A '' @ mapIndex ServiceTypeFlag (Type s) @ '' '' @ getHostPort s @ '' -s ''
           @ mapIndex ServiceSchedulerFlag (Scheduler s) @ '' '' @ Join (getPersistence s) '' ''
           @ '' '' @ Join (getNetmask s) '' '' @ [CHR 0x0A])
        # map (serverLine srvString s) (Servers s))"

text \<open>
  The loop of \<^verbatim>\<open>parseService\<close> over the tokens from position \<open>i\<close> on: the head of
  the list is \<^verbatim>\<open>exploded[i]\<close>, and \<^verbatim>\<open>exploded[i+1]\<close> is the head of the rest,
  out of range when the rest is empty.
\<close>

fun parseService_loop :: "string list \<Rightarrow> 'a Service \<Rightarrow> panic + 'a Service" where
  "parseService_loop [] service = Inr service"
| "parseService_loop (tok # rest) service =
     (if tok = ''-t'' \<or> tok = ''--tcp-service'' then
        (case rest of
           [] \<Rightarrow> Inl IndexOutOfRange
         | nxt # _ \<Rightarrow>
             parseService_loop rest
               (service\<lparr>Type := ''tcp'', Host := fst (parseHostPort nxt),
                  Port := snd (parseHostPort nxt)\<rparr>))
      else if tok = ''-u'' \<or> tok = ''--udp-service'' then
        (case rest of
           [] \<Rightarrow> Inl IndexOutOfRange
         | nxt # _ \<Rightarrow>
             parseService_loop rest
               (service\<lparr>Type := ''udp'', Host := fst (parseHostPort nxt),
                  Port := snd (parseHostPort nxt)\<rparr>))
      else if tok = ''-f'' \<or> tok = ''--fwmark-service'' then
        (case rest of
           [] \<Rightarrow> Inl IndexOutOfRange
         | nxt # _ \<Rightarrow>
             parseService_loop rest
               (service\<lparr>Type := ''fwmark'', Host := fst (parseHostPort nxt),
                  Port := snd (parseHostPort nxt)\<rparr>))
      else if tok = ''-s'' \<or> tok = ''--scheduler'' then
        (case rest of
           [] \<Rightarrow> Inl IndexOutOfRange
         | nxt # _ \<Rightarrow> parseService_loop rest (service\<lparr>Scheduler := nxt\<rparr>))
      else if tok = ''-p'' \<or> tok = ''--persistent'' then
        (case rest of
           [] \<Rightarrow> Inl IndexOutOfRange
         | nxt # _ \<Rightarrow>
             parseService_loop rest
               (service\<lparr>Persistence := (case Atoi nxt of None \<Rightarrow> 300 | Some n \<Rightarrow> n)\<rparr>))
      else if tok = ''-M'' \<or> tok = ''--netmask'' then
        (case rest of
           [] \<Rightarrow> Inl IndexOutOfRange
         | nxt # _ \<Rightarrow> parseService_loop rest (service\<lparr>Netmask := nxt\<rparr>))
      else parseService_loop rest service)"

definition parseService :: "string \<Rightarrow> panic + unit Service" where
  "parseService serviceString =
     parseService_loop (Split serviceString CHR '' '')
       \<lparr>Host = [], Port = 0, Type = ''tcp'', Scheduler = ''wlc'', Persistence = 300,
        Netmask = [], Servers = []\<rparr>"

section \<open>Operations that drive the external tool\<close>

text \<open>
  The execution layer \<^verbatim>\<open>backend(command, args...)\<close> is a parameter: it answers an
  invocation with an error or with none. An operation returns, next to its own result,
  the invocations it made, in order.
\<close>

type_synonym invocation = "string \<times> string list"
type_synonym backend = "string \<Rightarrow> string list \<Rightarrow> error option"

text \<open>
  The search loop shared by \<^verbatim>\<open>FindServer\<close>, \<^verbatim>\<open>EditServer\<close> and
  \<^verbatim>\<open>RemoveServer\<close>: the least index \<open>i\<close> with
  \<^verbatim>\<open>s.Servers[i].Host == host && s.Servers[i].Port == port\<close>, if there is one.
\<close>

fun matchIndex :: "'a Server_scheme list \<Rightarrow> string \<Rightarrow> go_int \<Rightarrow> nat option" where
  "matchIndex [] host port = None"
| "matchIndex (x # xs) host port =
     (if Server.Host x = host \<and> Server.Port x = port then Some 0
      else map_option Suc (matchIndex xs host port))"

text \<open>\<^verbatim>\<open>FindServer\<close> returns the address of the slot found, here its index.\<close>

definition FindServer :: "'a Service \<Rightarrow> string \<Rightarrow> go_int \<Rightarrow> nat option" where
  "FindServer s host port = matchIndex (Servers s) host port"

definition AddServer ::
  "backend \<Rightarrow> ('a Server_scheme \<Rightarrow> error option) \<Rightarrow> ('a Server_scheme \<Rightarrow> string)
     \<Rightarrow> 'a Server_scheme \<Rightarrow> 'a Service \<Rightarrow> error option \<times> 'a Service \<times> invocation list"
where
  "AddServer backend srvValidate srvString server s =
     (case srvValidate server of
        Some err \<Rightarrow> (Some err, s, [])
      | None \<Rightarrow>
          if Forwarder server \<noteq> ''m'' \<and> Port s \<noteq> Server.Port server
          then (Some InvalidServerPort, s, [])
          else if FindServer s (Server.Host server) (Server.Port server) \<noteq> None
          then (None, s, [])
          else
            (let args = [''-a'', mapIndex ServiceTypeFlag (Type s), getHostPort s, ''-r'']
                          @ Split (srvString server) CHR '' ''
             in case backend ''ipvsadm'' args of
                  Some err \<Rightarrow> (Some err, s, [(''ipvsadm'', args)])
                | None \<Rightarrow> (None, s\<lparr>Servers := Servers s @ [server]\<rparr>, [(''ipvsadm'', args)])))"

definition EditServer ::
  "backend \<Rightarrow> ('a Server_scheme \<Rightarrow> error option) \<Rightarrow> ('a Server_scheme \<Rightarrow> string)
     \<Rightarrow> 'a Server_scheme \<Rightarrow> 'a Service \<Rightarrow> error option \<times> 'a Service \<times> invocation list"
where
  "EditServer backend srvValidate srvString server s =
     (case srvValidate server of
        Some err \<Rightarrow> (Some err, s, [])
      | None \<Rightarrow>
          if Forwarder server \<noteq> ''m'' \<and> Port s \<noteq> Server.Port server
          then (Some InvalidServerPort, s, [])
          else
            (let args = [''-e'', mapIndex ServiceTypeFlag (Type s), getHostPort s, ''-r'']
                          @ Split (srvString server) CHR '' ''
             in case backend ''ipvsadm'' args of
                  Some err \<Rightarrow> (Some err, s, [(''ipvsadm'', args)])
                | None \<Rightarrow>
                    (case matchIndex (Servers s) (Server.Host server) (Server.Port server) of
                       None \<Rightarrow> (None, s, [(''ipvsadm'', args)])
                     | Some i \<Rightarrow>
                         (None,
                          s\<lparr>Servers := take i (Servers s) @ ([server] @ drop (i + 1) (Servers s))\<rparr>,
                          [(''ipvsadm'', args)]))))"

definition RemoveServer ::
  "backend \<Rightarrow> string \<Rightarrow> go_int \<Rightarrow> 'a Service \<Rightarrow> error option \<times> 'a Service \<times> invocation list"
where
  "RemoveServer backend host port s =
     (let args = [''-d'', mapIndex ServiceTypeFlag (Type s), getHostPort s, ''-r'',
                  host @ '':'' @ fmt_d port]
      in case backend ''ipvsadm'' args of
           Some err \<Rightarrow> (Some err, s, [(''ipvsadm'', args)])
         | None \<Rightarrow>
             (case matchIndex (Servers s) host port of
                None \<Rightarrow> (None, s, [(''ipvsadm'', args)])
              | Some i \<Rightarrow>
                  (None, s\<lparr>Servers := take i (Servers s) @ drop (i + 1) (Servers s)\<rparr>,
                   [(''ipvsadm'', args)])))"

definition Add :: "backend \<Rightarrow> 'a Service \<Rightarrow> error option \<times> invocation list" where
  "Add backend s =
     (let args = [''-A'', mapIndex ServiceTypeFlag (Type s), getHostPort s, ''-s'',
                  mapIndex ServiceSchedulerFlag (Scheduler s)]
                 @ (getPersistence s @ getNetmask s)
      in (backend ''ipvsadm'' args, [(''ipvsadm'', args)]))"

definition Remove :: "backend \<Rightarrow> 'a Service \<Rightarrow> error option \<times> invocation list" where
  "Remove backend s =
     (let args = [''-D'', mapIndex ServiceTypeFlag (Type s), getHostPort s]
      in (backend ''ipvsadm'' args, [(''ipvsadm'', args)]))"

definition Zero :: "backend \<Rightarrow> 'a Service \<Rightarrow> error option \<times> invocation list" where
  "Zero backend s =
     (let args = [''-Z'', mapIndex ServiceTypeFlag (Type s), getHostPort s]
      in (backend ''ipvsadm'' args, [(''ipvsadm'', args)]))"

section \<open>Vocabulary of the properties\<close>

text \<open>The keys of \<open>ServiceTypeFlag\<close> and of \<open>ServiceSchedulerFlag\<close>, as sets.\<close>

definition serviceTypeNames :: "string set" where
  "serviceTypeNames = {''tcp'', ''udp'', ''fwmark'', ''''}"

definition serviceSchedulerNames :: "string set" where
  "serviceSchedulerNames =
     {''rr'', ''wrr'', ''lc'', ''wlc'', ''lblc'', ''lblcr'', ''dh'', ''sh'', ''sed'', ''nq'', ''''}"

text \<open>
  What one round of the loop of \<^verbatim>\<open>Validate\<close> finds wrong with a server of a service
  with port \<open>port\<close>: the server's own validation error, else the port rule's.
\<close>

definition serverError ::
  "('a Server_scheme \<Rightarrow> error option) \<Rightarrow> go_int \<Rightarrow> 'a Server_scheme \<Rightarrow> error option"
where
  "serverError srvValidate port server =
     (case srvValidate server of
        Some err \<Rightarrow> Some err
      | None \<Rightarrow>
          if Forwarder server \<noteq> ''m'' \<and> port \<noteq> Server.Port server
          then Some InvalidServerPort else None)"

text \<open>The tokens that select a case of the \<^verbatim>\<open>switch\<close> in \<^verbatim>\<open>parseService\<close>.\<close>

definition optionTokens :: "string set" where
  "optionTokens =
     {''-t'', ''--tcp-service'', ''-u'', ''--udp-service'', ''-f'', ''--fwmark-service'',
      ''-s'', ''--scheduler'', ''-p'', ''--persistent'', ''-M'', ''--netmask''}"

section \<open>Example data\<close>

text \<open>
  Concrete inputs for the examples that follow the theorems: an execution layer that
  always succeeds and one that always fails, stand-ins for the two methods of a server
  (a validation that rejects an unknown forwarder, a text form made of the address and
  the forwarder's flag), three servers and a service.
\<close>

definition backendOk :: backend where
  "backendOk command args = None"

definition backendFail :: backend where
  "backendFail command args = Some (OtherError ''exit status 1'')"

definition exValidate :: "Server \<Rightarrow> error option" where
  "exValidate server =
     (if Forwarder server \<in> {''g'', ''i'', ''m'', ''''} then None
      else Some (OtherError ''Invalid Server Forwarder''))"

definition exString :: "Server \<Rightarrow> string" where
  "exString server =
     Server.Host server @ '':'' @ fmt_d (Server.Port server) @ '' -'' @ Forwarder server"

definition exServerA :: Server where
  "exServerA = \<lparr>Server.Host = ''10.0.0.2'', Server.Port = 80, Forwarder = ''g''\<rparr>"

definition exServerB :: Server where
  "exServerB = \<lparr>Server.Host = ''10.0.0.3'', Server.Port = 80, Forwarder = ''g''\<rparr>"

definition exServerM :: Server where
  "exServerM = \<lparr>Server.Host = ''10.0.0.4'', Server.Port = 8080, Forwarder = ''m''\<rparr>"

definition exService :: "unit Service" where
  "exService =
     \<lparr>Host = ''10.0.0.1'', Port = 80, Type = ''tcp'', Scheduler = ''rr'', Persistence = 300,
      Netmask = [], Servers = [exServerA]\<rparr>"

text \<open>The same service holding the second server twice.\<close>

definition exTwins :: "unit Service" where
  "exTwins = exService\<lparr>Servers := [exServerA, exServerB, exServerB]\<rparr>"

section \<open>Facts about the loops\<close>

lemma matchIndex_None:
  "matchIndex xs h p = None \<longleftrightarrow> (\<forall>x \<in> set xs. \<not> (Server.Host x = h \<and> Server.Port x = p))"
  by (induction xs) auto

lemma matchIndex_Some:
  "matchIndex xs h p = Some i \<longleftrightarrow>
     i < length xs \<and> Server.Host (xs ! i) = h \<and> Server.Port (xs ! i) = p \<and>
     (\<forall>j < i. \<not> (Server.Host (xs ! j) = h \<and> Server.Port (xs ! j) = p))"
proof (induction xs arbitrary: i)
  case Nil
  then show ?case by simp
next
  case (Cons x xs)
  show ?case
  proof (cases "Server.Host x = h \<and> Server.Port x = p")
    case True
    then show ?thesis by (cases i) auto
  next
    case False
    show ?thesis
    proof (cases i)
      case 0
      with False show ?thesis by auto
    next
      case (Suc k)
      have "(\<forall>j < Suc k. \<not> (Server.Host ((x # xs) ! j) = h \<and> Server.Port ((x # xs) ! j) = p))
            \<longleftrightarrow> (\<forall>j < k. \<not> (Server.Host (xs ! j) = h \<and> Server.Port (xs ! j) = p))"
        using False by (auto simp: less_Suc_eq_0_disj)
      with False Suc Cons.IH [of k] show ?thesis by auto
    qed
  qed
qed

lemma matchIndex_append_self:
  "matchIndex (xs @ [r]) (Server.Host r) (Server.Port r) \<noteq> None"
  by (simp add: matchIndex_None)

lemma replace_at: "i < length xs \<Longrightarrow> take i xs @ ([y] @ drop (i + 1) xs) = xs[i := y]"
  by (simp add: upd_conv_take_nth_drop)

lemma Validate_servers_all_pass:
  "(\<forall>x \<in> set xs. serverError v port x = None) \<Longrightarrow> Validate_servers v port xs = None"
  by (induction xs) (auto simp: serverError_def split: option.splits if_splits)

lemma Validate_servers_first_failure:
  "(\<forall>x \<in> set pre. serverError v port x = None) \<Longrightarrow> serverError v port r = Some e \<Longrightarrow>
     Validate_servers v port (pre @ r # post) = Some e"
  by (induction pre) (auto simp: serverError_def split: option.splits if_splits)

lemma Validate_servers_not:
  "\<forall>x \<in> set xs. v x \<noteq> Some e \<Longrightarrow> e \<noteq> InvalidServerPort \<Longrightarrow> Validate_servers v port xs \<noteq> Some e"
  by (induction xs) (auto split: option.splits)

lemma ServiceTypeFlag_keys: "ServiceTypeFlag t = None \<longleftrightarrow> t \<notin> serviceTypeNames"
  by (simp add: ServiceTypeFlag_def serviceTypeNames_def)

lemma ServiceSchedulerFlag_keys:
  "ServiceSchedulerFlag t = None \<longleftrightarrow> t \<notin> serviceSchedulerNames"
  by (simp add: ServiceSchedulerFlag_def serviceSchedulerNames_def)

lemma Split_no_sep: "sep \<notin> set a \<Longrightarrow> Split a sep = [a]"
proof -
  assume "sep \<notin> set a"
  then have d: "dropWhile (\<lambda>c. c \<noteq> sep) a = []"
    by auto
  show ?thesis
    by (subst Split.simps) (simp only: d list.case)
qed

lemma Split_first: "sep \<notin> set a \<Longrightarrow> Split (a @ sep # b) sep = a # Split b sep"
proof -
  assume a: "sep \<notin> set a"
  then have d: "dropWhile (\<lambda>c. c \<noteq> sep) (a @ sep # b) = sep # b"
    by (induction a) auto
  from a have t: "takeWhile (\<lambda>c. c \<noteq> sep) (a @ sep # b) = a"
    by (induction a) auto
  show ?thesis
    by (subst Split.simps) (simp add: d t)
qed

lemma Split_append: "Split (a @ sep # b) sep = Split a sep @ Split b sep"
proof (induction a sep rule: Split.induct)
  case (1 s sep)
  show ?case
  proof (cases "dropWhile (\<lambda>c. c \<noteq> sep) s")
    case Nil
    then have "sep \<notin> set s"
      by (auto simp: dropWhile_eq_Nil_conv)
    then show ?thesis
      by (simp add: Split_first Split_no_sep)
  next
    case (Cons x rest)
    then have x: "x = sep"
      using hd_dropWhile [of "\<lambda>c. c \<noteq> sep" s] by auto
    have s: "s = takeWhile (\<lambda>c. c \<noteq> sep) s @ sep # rest"
      using takeWhile_dropWhile_id [of "\<lambda>c. c \<noteq> sep" s] Cons x by simp
    have n: "sep \<notin> set (takeWhile (\<lambda>c. c \<noteq> sep) s)"
      using set_takeWhileD by fastforce
    have "Split (s @ sep # b) sep
        = Split (takeWhile (\<lambda>c. c \<noteq> sep) s @ sep # (rest @ sep # b)) sep"
      using s by (metis append.assoc append_Cons)
    also have "\<dots> = takeWhile (\<lambda>c. c \<noteq> sep) s # Split (rest @ sep # b) sep"
      using n by (rule Split_first)
    also have "\<dots> = takeWhile (\<lambda>c. c \<noteq> sep) s # (Split rest sep @ Split b sep)"
      using "1.IH" [OF Cons] by simp
    also have "\<dots> = Split s sep @ Split b sep"
      by (subst (2) Split.simps) (simp add: Cons)
    finally show ?thesis .
  qed
qed

lemma parseService_loop_trailing_flag:
  "tok \<in> optionTokens \<Longrightarrow> parseService_loop (ts @ [tok]) service = Inl IndexOutOfRange"
proof (induction ts arbitrary: service)
  case Nil
  then show ?case by (auto simp: optionTokens_def)
next
  case (Cons t ts)
  obtain u us where u: "ts @ [tok] = u # us"
    by (cases "ts @ [tok]") auto
  show ?case
    using Cons u by (simp del: parseService_loop.simps add: parseService_loop.simps(2) [of t])
qed

section \<open>Argument lists\<close>

text \<open>
  C5. \<^verbatim>\<open>Add\<close> invokes the tool once, with the arguments \<^verbatim>\<open>-A\<close>, the type flag, the
  host (alone when the port is 0, else host, colon and port), \<^verbatim>\<open>-s\<close>, the scheduler
  flag, then \<^verbatim>\<open>-p\<close> and the persistence exactly when it is not 0, then \<^verbatim>\<open>-M\<close> and
  the netmask exactly when it is not empty.
\<close>

theorem Add_argument_list:
  "snd (Add backend s) =
     [(''ipvsadm'',
       [''-A'', mapIndex ServiceTypeFlag (Type s),
        (if Port s = 0 then Host s else Host s @ '':'' @ fmt_d (Port s)),
        ''-s'', mapIndex ServiceSchedulerFlag (Scheduler s)]
       @ (if Persistence s \<noteq> 0 then [''-p'', fmt_d (Persistence s)] else [])
       @ (if Netmask s \<noteq> [] then [''-M'', Netmask s] else []))]"
  by (simp add: Add_def Let_def getHostPort_def getPersistence_def getNetmask_def)

theorem Add_argument_list_witness:
  "snd (Add backendOk exService) =
     [(''ipvsadm'', [''-A'', ''-t'', ''10.0.0.1:80'', ''-s'', ''rr'', ''-p'', ''300''])] \<and>
   snd (Add backendOk (exService\<lparr>Port := 0, Type := ''fwmark'', Scheduler := [], Persistence := 0,
                          Netmask := ''255.255.255.255''\<rparr>)) =
     [(''ipvsadm'', [''-A'', ''-f'', ''10.0.0.1'', ''-s'', ''wlc'', ''-M'', ''255.255.255.255''])]"
  using Add_argument_list [of backendOk exService]
    Add_argument_list [of backendOk "exService\<lparr>Port := 0, Type := ''fwmark'', Scheduler := [],
      Persistence := 0, Netmask := ''255.255.255.255''\<rparr>"]
  by (simp add: exService_def mapIndex_def ServiceTypeFlag_def ServiceSchedulerFlag_def
      fmt_d_def digitChar_def char_of_eq_iff)

section \<open>Errors of the execution layer\<close>

text \<open>
  C7. Each of \<^verbatim>\<open>Add\<close>, \<^verbatim>\<open>Remove\<close>, \<^verbatim>\<open>Zero\<close> and \<^verbatim>\<open>RemoveServer\<close> invokes the tool
  exactly once and returns what that invocation returned: nil when it succeeded, its
  error otherwise. \<^verbatim>\<open>AddServer\<close> and \<^verbatim>\<open>EditServer\<close> either do not invoke the tool,
  or invoke it exactly once and return what that invocation returned.
\<close>

theorem errors_surfaced_unchanged:
  "(\<exists>args. Add backend s = (backend ''ipvsadm'' args, [(''ipvsadm'', args)])) \<and>
   (\<exists>args. Remove backend s = (backend ''ipvsadm'' args, [(''ipvsadm'', args)])) \<and>
   (\<exists>args. Zero backend s = (backend ''ipvsadm'' args, [(''ipvsadm'', args)])) \<and>
   (\<exists>args s'. RemoveServer backend host port s
                 = (backend ''ipvsadm'' args, s', [(''ipvsadm'', args)])) \<and>
   (snd (snd (AddServer backend srvValidate srvString server s)) = [] \<or>
    (\<exists>args s'. AddServer backend srvValidate srvString server s
                  = (backend ''ipvsadm'' args, s', [(''ipvsadm'', args)]))) \<and>
   (snd (snd (EditServer backend srvValidate srvString server s)) = [] \<or>
    (\<exists>args s'. EditServer backend srvValidate srvString server s
                  = (backend ''ipvsadm'' args, s', [(''ipvsadm'', args)])))"
proof (intro conjI)
  show "\<exists>args. Add backend s = (backend ''ipvsadm'' args, [(''ipvsadm'', args)])"
    by (simp add: Add_def Let_def)
  show "\<exists>args. Remove backend s = (backend ''ipvsadm'' args, [(''ipvsadm'', args)])"
    by (simp add: Remove_def Let_def)
  show "\<exists>args. Zero backend s = (backend ''ipvsadm'' args, [(''ipvsadm'', args)])"
    by (simp add: Zero_def Let_def)
  show "\<exists>args s'. RemoveServer backend host port s
                 = (backend ''ipvsadm'' args, s', [(''ipvsadm'', args)])"
    by (auto simp: RemoveServer_def Let_def split: option.splits)
  show "snd (snd (AddServer backend srvValidate srvString server s)) = [] \<or>
    (\<exists>args s'. AddServer backend srvValidate srvString server s
                  = (backend ''ipvsadm'' args, s', [(''ipvsadm'', args)]))"
    by (auto simp: AddServer_def Let_def split: option.splits)
  show "snd (snd (EditServer backend srvValidate srvString server s)) = [] \<or>
    (\<exists>args s'. EditServer backend srvValidate srvString server s
                  = (backend ''ipvsadm'' args, s', [(''ipvsadm'', args)]))"
    by (auto simp: EditServer_def Let_def split: option.splits)
qed

theorem errors_surfaced_unchanged_witness:
  "fst (Add backendFail exService) = Some (OtherError ''exit status 1'') \<and>
   fst (Remove backendFail exService) = Some (OtherError ''exit status 1'') \<and>
   fst (Zero backendOk exService) = None \<and>
   fst (RemoveServer backendFail ''10.0.0.2'' 80 exService) = Some (OtherError ''exit status 1'') \<and>
   snd (snd (AddServer backendFail exValidate exString exServerB exService)) \<noteq> [] \<and>
   fst (AddServer backendFail exValidate exString exServerB exService)
     = Some (OtherError ''exit status 1'')"
proof -
  have inv: "snd (snd (AddServer backendFail exValidate exString exServerB exService)) \<noteq> []"
    by (simp add: AddServer_def FindServer_def exService_def exServerA_def exServerB_def
        exValidate_def backendFail_def Let_def)
  from inv errors_surfaced_unchanged [where backend = backendFail and s = exService
      and host = "''10.0.0.2''" and port = 80 and srvValidate = exValidate
      and srvString = exString and server = exServerB]
    errors_surfaced_unchanged [where backend = backendOk and s = exService
      and host = "''10.0.0.2''" and port = 80 and srvValidate = exValidate
      and srvString = exString and server = exServerB]
  show ?thesis
    by (auto simp: backendFail_def backendOk_def)
qed

section \<open>The in-memory list of servers\<close>

text \<open>
  C2. \<^verbatim>\<open>AddServer\<close>, \<^verbatim>\<open>EditServer\<close> and \<^verbatim>\<open>RemoveServer\<close> leave the service as it
  was whenever they return an error. When they invoke the tool they return what the
  invocation returned, and when it succeeded the server is appended
  (\<^verbatim>\<open>AddServer\<close>), the first server with the same host and port is replaced, if there
  is one (\<^verbatim>\<open>EditServer\<close>), or removed, if there is one (\<^verbatim>\<open>RemoveServer\<close>).
\<close>

theorem state_updated_only_on_success:
  "(case AddServer backend srvValidate srvString server s of
      (err, s', calls) \<Rightarrow>
        (err \<noteq> None \<longrightarrow> s' = s) \<and>
        (\<forall>args. calls = [(''ipvsadm'', args)] \<longrightarrow>
           err = backend ''ipvsadm'' args \<and>
           (backend ''ipvsadm'' args = None \<longrightarrow> s' = s\<lparr>Servers := Servers s @ [server]\<rparr>))) \<and>
   (case EditServer backend srvValidate srvString server s of
      (err, s', calls) \<Rightarrow>
        (err \<noteq> None \<longrightarrow> s' = s) \<and>
        (\<forall>args. calls = [(''ipvsadm'', args)] \<longrightarrow>
           err = backend ''ipvsadm'' args \<and>
           (backend ''ipvsadm'' args = None \<longrightarrow>
              s' = s\<lparr>Servers :=
                      (case matchIndex (Servers s) (Server.Host server) (Server.Port server) of
                         None \<Rightarrow> Servers s
                       | Some i \<Rightarrow> (Servers s)[i := server])\<rparr>))) \<and>
   (case RemoveServer backend host port s of
      (err, s', calls) \<Rightarrow>
        (err \<noteq> None \<longrightarrow> s' = s) \<and>
        (\<exists>args. calls = [(''ipvsadm'', args)] \<and>
           err = backend ''ipvsadm'' args \<and>
           (backend ''ipvsadm'' args = None \<longrightarrow>
              s' = s\<lparr>Servers :=
                      (case matchIndex (Servers s) host port of
                         None \<Rightarrow> Servers s
                       | Some i \<Rightarrow> take i (Servers s) @ drop (Suc i) (Servers s))\<rparr>)))"
proof (intro conjI)
  show "case AddServer backend srvValidate srvString server s of
      (err, s', calls) \<Rightarrow>
        (err \<noteq> None \<longrightarrow> s' = s) \<and>
        (\<forall>args. calls = [(''ipvsadm'', args)] \<longrightarrow>
           err = backend ''ipvsadm'' args \<and>
           (backend ''ipvsadm'' args = None \<longrightarrow> s' = s\<lparr>Servers := Servers s @ [server]\<rparr>))"
    by (auto simp: AddServer_def Let_def split: option.splits)
  show "case EditServer backend srvValidate srvString server s of
      (err, s', calls) \<Rightarrow>
        (err \<noteq> None \<longrightarrow> s' = s) \<and>
        (\<forall>args. calls = [(''ipvsadm'', args)] \<longrightarrow>
           err = backend ''ipvsadm'' args \<and>
           (backend ''ipvsadm'' args = None \<longrightarrow>
              s' = s\<lparr>Servers :=
                      (case matchIndex (Servers s) (Server.Host server) (Server.Port server) of
                         None \<Rightarrow> Servers s
                       | Some i \<Rightarrow> (Servers s)[i := server])\<rparr>))"
  proof (cases "matchIndex (Servers s) (Server.Host server) (Server.Port server)")
    case None
    then show ?thesis
      by (auto simp: EditServer_def Let_def split: option.splits)
  next
    case (Some i)
    then have "i < length (Servers s)"
      by (simp add: matchIndex_Some)
    then have "take i (Servers s) @ ([server] @ drop (i + 1) (Servers s)) = (Servers s)[i := server]"
      by (rule replace_at)
    with Some show ?thesis
      by (auto simp: EditServer_def Let_def split: option.splits)
  qed
  show "case RemoveServer backend host port s of
      (err, s', calls) \<Rightarrow>
        (err \<noteq> None \<longrightarrow> s' = s) \<and>
        (\<exists>args. calls = [(''ipvsadm'', args)] \<and>
           err = backend ''ipvsadm'' args \<and>
           (backend ''ipvsadm'' args = None \<longrightarrow>
              s' = s\<lparr>Servers :=
                      (case matchIndex (Servers s) host port of
                         None \<Rightarrow> Servers s
                       | Some i \<Rightarrow> take i (Servers s) @ drop (Suc i) (Servers s))\<rparr>))"
    by (auto simp: RemoveServer_def Let_def split: option.splits)
qed

theorem state_updated_only_on_success_witness:
  "AddServer backendOk exValidate exString exServerB exService
     = (None, exService\<lparr>Servers := [exServerA, exServerB]\<rparr>,
        [(''ipvsadm'', [''-a'', ''-t'', ''10.0.0.1:80'', ''-r'', ''10.0.0.3:80'', ''-g''])]) \<and>
   AddServer backendFail exValidate exString exServerB exService
     = (Some (OtherError ''exit status 1''), exService,
        [(''ipvsadm'', [''-a'', ''-t'', ''10.0.0.1:80'', ''-r'', ''10.0.0.3:80'', ''-g''])]) \<and>
   fst (snd (EditServer backendOk exValidate exString (exServerA\<lparr>Forwarder := ''i''\<rparr>) exService))
     = exService\<lparr>Servers := [exServerA\<lparr>Forwarder := ''i''\<rparr>]\<rparr> \<and>
   fst (snd (EditServer backendFail exValidate exString (exServerA\<lparr>Forwarder := ''i''\<rparr>) exService))
     = exService \<and>
   fst (snd (RemoveServer backendOk ''10.0.0.2'' 80 exService)) = exService\<lparr>Servers := []\<rparr> \<and>
   fst (snd (RemoveServer backendFail ''10.0.0.2'' 80 exService)) = exService"
  using state_updated_only_on_success [where backend = backendOk and srvValidate = exValidate
      and srvString = exString and server = exServerB and s = exService
      and host = "''10.0.0.2''" and port = 80]
    state_updated_only_on_success [where backend = backendFail and srvValidate = exValidate
      and srvString = exString and server = "exServerA\<lparr>Forwarder := ''i''\<rparr>" and s = exService
      and host = "''10.0.0.2''" and port = 80]
  by (simp add: AddServer_def EditServer_def RemoveServer_def FindServer_def Let_def
      exService_def exServerA_def exServerB_def exValidate_def exString_def
      backendOk_def backendFail_def getHostPort_def mapIndex_def ServiceTypeFlag_def
      fmt_d_def digitChar_def char_of_eq_iff Split.simps)

text \<open>
  C9. A call of \<^verbatim>\<open>EditServer\<close> or \<^verbatim>\<open>RemoveServer\<close> that returns nil changes nothing
  but the list of servers, and there only the first element whose host and port match:
  \<^verbatim>\<open>EditServer\<close> puts the new server in its place, \<^verbatim>\<open>RemoveServer\<close> takes it out
  and keeps the others in their order. When no element matches, the service is
  unchanged, and the call returns nil as soon as the validation passes and the tool
  succeeds.
\<close>

theorem EditServer_RemoveServer_frame:
  "(\<forall>s' calls. EditServer backend srvValidate srvString server s = (None, s', calls) \<longrightarrow>
      ((\<forall>x \<in> set (Servers s).
          \<not> (Server.Host x = Server.Host server \<and> Server.Port x = Server.Port server))
         \<longrightarrow> s' = s) \<and>
      (\<forall>i. i < length (Servers s) \<and>
           Server.Host (Servers s ! i) = Server.Host server \<and>
           Server.Port (Servers s ! i) = Server.Port server \<and>
           (\<forall>j < i. \<not> (Server.Host (Servers s ! j) = Server.Host server \<and>
                        Server.Port (Servers s ! j) = Server.Port server))
         \<longrightarrow> s' = s\<lparr>Servers := (Servers s)[i := server]\<rparr>)) \<and>
   (\<forall>s' calls. RemoveServer backend host port s = (None, s', calls) \<longrightarrow>
      ((\<forall>x \<in> set (Servers s). \<not> (Server.Host x = host \<and> Server.Port x = port))
         \<longrightarrow> s' = s) \<and>
      (\<forall>i. i < length (Servers s) \<and>
           Server.Host (Servers s ! i) = host \<and> Server.Port (Servers s ! i) = port \<and>
           (\<forall>j < i. \<not> (Server.Host (Servers s ! j) = host \<and>
                        Server.Port (Servers s ! j) = port))
         \<longrightarrow> s' = s\<lparr>Servers := take i (Servers s) @ drop (Suc i) (Servers s)\<rparr>)) \<and>
   ((\<forall>x \<in> set (Servers s).
        \<not> (Server.Host x = Server.Host server \<and> Server.Port x = Server.Port server)) \<and>
    srvValidate server = None \<and> (Forwarder server = ''m'' \<or> Port s = Server.Port server) \<and>
    (\<forall>args. backend ''ipvsadm'' args = None)
      \<longrightarrow> fst (EditServer backend srvValidate srvString server s) = None \<and>
          fst (snd (EditServer backend srvValidate srvString server s)) = s) \<and>
   ((\<forall>x \<in> set (Servers s). \<not> (Server.Host x = host \<and> Server.Port x = port)) \<and>
    (\<forall>args. backend ''ipvsadm'' args = None)
      \<longrightarrow> fst (RemoveServer backend host port s) = None \<and>
          fst (snd (RemoveServer backend host port s)) = s)"
proof (intro conjI allI impI)
  fix s' calls
  assume a: "EditServer backend srvValidate srvString server s = (None, s', calls)"
    and n: "\<forall>x \<in> set (Servers s).
          \<not> (Server.Host x = Server.Host server \<and> Server.Port x = Server.Port server)"
  from n have "matchIndex (Servers s) (Server.Host server) (Server.Port server) = None"
    by (simp add: matchIndex_None)
  with a show "s' = s"
    by (auto simp: EditServer_def Let_def split: option.splits if_splits)
next
  fix s' calls i
  assume a: "EditServer backend srvValidate srvString server s = (None, s', calls)"
    and m: "i < length (Servers s) \<and>
           Server.Host (Servers s ! i) = Server.Host server \<and>
           Server.Port (Servers s ! i) = Server.Port server \<and>
           (\<forall>j < i. \<not> (Server.Host (Servers s ! j) = Server.Host server \<and>
                        Server.Port (Servers s ! j) = Server.Port server))"
  from m have "matchIndex (Servers s) (Server.Host server) (Server.Port server) = Some i"
    by (simp add: matchIndex_Some)
  with a m show "s' = s\<lparr>Servers := (Servers s)[i := server]\<rparr>"
    by (auto simp: EditServer_def Let_def upd_conv_take_nth_drop split: option.splits if_splits)
next
  fix s' calls
  assume a: "RemoveServer backend host port s = (None, s', calls)"
    and n: "\<forall>x \<in> set (Servers s). \<not> (Server.Host x = host \<and> Server.Port x = port)"
  from n have "matchIndex (Servers s) host port = None"
    by (simp add: matchIndex_None)
  with a show "s' = s"
    by (auto simp: RemoveServer_def Let_def split: option.splits if_splits)
next
  fix s' calls i
  assume a: "RemoveServer backend host port s = (None, s', calls)"
    and m: "i < length (Servers s) \<and>
           Server.Host (Servers s ! i) = host \<and> Server.Port (Servers s ! i) = port \<and>
           (\<forall>j < i. \<not> (Server.Host (Servers s ! j) = host \<and>
                        Server.Port (Servers s ! j) = port))"
  from m have "matchIndex (Servers s) host port = Some i"
    by (simp add: matchIndex_Some)
  with a show "s' = s\<lparr>Servers := take i (Servers s) @ drop (Suc i) (Servers s)\<rparr>"
    by (auto simp: RemoveServer_def Let_def split: option.splits if_splits)
next
  assume a: "(\<forall>x \<in> set (Servers s).
        \<not> (Server.Host x = Server.Host server \<and> Server.Port x = Server.Port server)) \<and>
    srvValidate server = None \<and> (Forwarder server = ''m'' \<or> Port s = Server.Port server) \<and>
    (\<forall>args. backend ''ipvsadm'' args = None)"
  then have m: "matchIndex (Servers s) (Server.Host server) (Server.Port server) = None"
    by (simp add: matchIndex_None)
  from a m show "fst (EditServer backend srvValidate srvString server s) = None"
    by (auto simp: EditServer_def Let_def)
  from a m show "fst (snd (EditServer backend srvValidate srvString server s)) = s"
    by (auto simp: EditServer_def Let_def)
next
  assume a: "(\<forall>x \<in> set (Servers s). \<not> (Server.Host x = host \<and> Server.Port x = port)) \<and>
    (\<forall>args. backend ''ipvsadm'' args = None)"
  then have m: "matchIndex (Servers s) host port = None"
    by (simp add: matchIndex_None)
  from a m show "fst (RemoveServer backend host port s) = None"
    by (auto simp: RemoveServer_def Let_def)
  from a m show "fst (snd (RemoveServer backend host port s)) = s"
    by (auto simp: RemoveServer_def Let_def)
qed

theorem EditServer_RemoveServer_frame_witness:
  "EditServer backendOk exValidate exString (exServerB\<lparr>Forwarder := ''i''\<rparr>) exTwins
     = (None, exTwins\<lparr>Servers := [exServerA, exServerB\<lparr>Forwarder := ''i''\<rparr>, exServerB]\<rparr>,
        [(''ipvsadm'', [''-e'', ''-t'', ''10.0.0.1:80'', ''-r'', ''10.0.0.3:80'', ''-i''])]) \<and>
   RemoveServer backendOk ''10.0.0.3'' 80 exTwins
     = (None, exTwins\<lparr>Servers := [exServerA, exServerB]\<rparr>,
        [(''ipvsadm'', [''-d'', ''-t'', ''10.0.0.1:80'', ''-r'', ''10.0.0.3:80''])]) \<and>
   fst (snd (EditServer backendOk exValidate exString exServerM exTwins)) = exTwins \<and>
   fst (EditServer backendOk exValidate exString exServerM exTwins) = None \<and>
   fst (snd (RemoveServer backendOk ''10.0.0.9'' 80 exTwins)) = exTwins \<and>
   fst (RemoveServer backendOk ''10.0.0.9'' 80 exTwins) = None"
  using EditServer_RemoveServer_frame [where backend = backendOk and srvValidate = exValidate
      and srvString = exString and server = "exServerB\<lparr>Forwarder := ''i''\<rparr>" and s = exTwins
      and host = "''10.0.0.3''" and port = 80]
    EditServer_RemoveServer_frame [where backend = backendOk and srvValidate = exValidate
      and srvString = exString and server = exServerM and s = exTwins
      and host = "''10.0.0.9''" and port = 80]
  by (simp add: EditServer_def RemoveServer_def Let_def exTwins_def
      exService_def exServerA_def exServerB_def exServerM_def exValidate_def exString_def
      backendOk_def getHostPort_def mapIndex_def ServiceTypeFlag_def
      fmt_d_def digitChar_def char_of_eq_iff Split.simps)

text \<open>
  C8. When the server passes the checks of \<^verbatim>\<open>AddServer\<close> (its own validation and the
  port rule) and the service already holds a server with its host and port,
  \<^verbatim>\<open>AddServer\<close> returns nil, invokes nothing and leaves the service as it is. Hence
  after a call of \<^verbatim>\<open>AddServer\<close> that returned nil, a second call with the same server
  returns nil, invokes nothing and changes nothing, whatever the tool would answer.
\<close>

theorem AddServer_idempotent:
  "(srvValidate r = None \<and> (Forwarder r = ''m'' \<or> Port s = Server.Port r) \<and>
    FindServer s (Server.Host r) (Server.Port r) \<noteq> None
      \<longrightarrow> AddServer backend srvValidate srvString r s = (None, s, [])) \<and>
   (\<forall>s1 calls. AddServer backend srvValidate srvString r s = (None, s1, calls)
      \<longrightarrow> AddServer backend' srvValidate srvString r s1 = (None, s1, []))"
proof (intro conjI allI impI)
  assume "srvValidate r = None \<and> (Forwarder r = ''m'' \<or> Port s = Server.Port r) \<and>
    FindServer s (Server.Host r) (Server.Port r) \<noteq> None"
  then show "AddServer backend srvValidate srvString r s = (None, s, [])"
    by (auto simp: AddServer_def)
next
  fix s1 calls
  assume a: "AddServer backend srvValidate srvString r s = (None, s1, calls)"
  then have v: "srvValidate r = None" and p: "Forwarder r = ''m'' \<or> Port s = Server.Port r"
    by (auto simp: AddServer_def Let_def split: option.splits if_splits)
  from a have "s1 = s \<and> FindServer s (Server.Host r) (Server.Port r) \<noteq> None
      \<or> s1 = s\<lparr>Servers := Servers s @ [r]\<rparr>"
    by (auto simp: AddServer_def Let_def split: option.splits if_splits)
  then have "Port s1 = Port s \<and> FindServer s1 (Server.Host r) (Server.Port r) \<noteq> None"
    using matchIndex_append_self [of "Servers s" r] by (auto simp: FindServer_def)
  with v p show "AddServer backend' srvValidate srvString r s1 = (None, s1, [])"
    by (auto simp: AddServer_def)
qed

theorem AddServer_idempotent_witness:
  "exValidate exServerA = None \<and> Port exService = Server.Port exServerA \<and>
   FindServer exService (Server.Host exServerA) (Server.Port exServerA) = Some 0 \<and>
   AddServer backendFail exValidate exString exServerA exService = (None, exService, []) \<and>
   fst (AddServer backendOk exValidate exString exServerB exService) = None \<and>
   AddServer backendFail exValidate exString exServerB
       (fst (snd (AddServer backendOk exValidate exString exServerB exService)))
     = (None, exService\<lparr>Servers := [exServerA, exServerB]\<rparr>, [])"
  using AddServer_idempotent [where srvValidate = exValidate and r = exServerA and s = exService
      and backend = backendFail and srvString = exString and backend' = backendFail]
    AddServer_idempotent [where srvValidate = exValidate and r = exServerB and s = exService
      and backend = backendOk and srvString = exString and backend' = backendFail]
  by (simp add: AddServer_def FindServer_def Let_def
      exService_def exServerA_def exServerB_def exValidate_def exString_def
      backendOk_def backendFail_def)

section \<open>Validation of a service\<close>

text \<open>
  C4. \<^verbatim>\<open>Validate\<close> returns \<open>InvalidServiceType\<close> when the type is none of the four
  names; else \<open>InvalidServiceScheduler\<close> when the scheduler is none of the eleven
  names; else nil when no server fails, and otherwise the error of the first server,
  in list order, that fails (its own validation error, or \<open>InvalidServerPort\<close> from the
  port rule). Provided the validation of a server never yields one of the two service
  errors, each of them is returned exactly in its case.
\<close>

theorem Validate_cascade:
  "(Type s \<notin> serviceTypeNames \<longrightarrow> Validate srvValidate s = Some InvalidServiceType) \<and>
   (Type s \<in> serviceTypeNames \<and> Scheduler s \<notin> serviceSchedulerNames
      \<longrightarrow> Validate srvValidate s = Some InvalidServiceScheduler) \<and>
   (Type s \<in> serviceTypeNames \<and> Scheduler s \<in> serviceSchedulerNames \<and>
    (\<forall>x \<in> set (Servers s). serverError srvValidate (Port s) x = None)
      \<longrightarrow> Validate srvValidate s = None) \<and>
   (\<forall>pre r post e.
      Type s \<in> serviceTypeNames \<and> Scheduler s \<in> serviceSchedulerNames \<and>
      Servers s = pre @ r # post \<and>
      (\<forall>x \<in> set pre. serverError srvValidate (Port s) x = None) \<and>
      serverError srvValidate (Port s) r = Some e
      \<longrightarrow> Validate srvValidate s = Some e) \<and>
   ((\<forall>x \<in> set (Servers s). srvValidate x \<noteq> Some InvalidServiceType)
      \<longrightarrow> (Validate srvValidate s = Some InvalidServiceType \<longleftrightarrow> Type s \<notin> serviceTypeNames)) \<and>
   ((\<forall>x \<in> set (Servers s). srvValidate x \<noteq> Some InvalidServiceScheduler) \<and>
    Type s \<in> serviceTypeNames
      \<longrightarrow> (Validate srvValidate s = Some InvalidServiceScheduler
             \<longleftrightarrow> Scheduler s \<notin> serviceSchedulerNames))"
proof (intro conjI)
  show "Type s \<notin> serviceTypeNames \<longrightarrow> Validate srvValidate s = Some InvalidServiceType"
    by (simp add: Validate_def ServiceTypeFlag_keys)
  show "Type s \<in> serviceTypeNames \<and> Scheduler s \<notin> serviceSchedulerNames
      \<longrightarrow> Validate srvValidate s = Some InvalidServiceScheduler"
    by (simp add: Validate_def ServiceTypeFlag_keys ServiceSchedulerFlag_keys)
  show "Type s \<in> serviceTypeNames \<and> Scheduler s \<in> serviceSchedulerNames \<and>
    (\<forall>x \<in> set (Servers s). serverError srvValidate (Port s) x = None)
      \<longrightarrow> Validate srvValidate s = None"
    by (simp add: Validate_def ServiceTypeFlag_keys ServiceSchedulerFlag_keys
        Validate_servers_all_pass)
  show "\<forall>pre r post e.
      Type s \<in> serviceTypeNames \<and> Scheduler s \<in> serviceSchedulerNames \<and>
      Servers s = pre @ r # post \<and>
      (\<forall>x \<in> set pre. serverError srvValidate (Port s) x = None) \<and>
      serverError srvValidate (Port s) r = Some e
      \<longrightarrow> Validate srvValidate s = Some e"
    by (simp add: Validate_def ServiceTypeFlag_keys ServiceSchedulerFlag_keys
        Validate_servers_first_failure)
  show "(\<forall>x \<in> set (Servers s). srvValidate x \<noteq> Some InvalidServiceType)
      \<longrightarrow> (Validate srvValidate s = Some InvalidServiceType \<longleftrightarrow> Type s \<notin> serviceTypeNames)"
    using Validate_servers_not [of "Servers s" srvValidate InvalidServiceType "Port s"]
    by (simp add: Validate_def ServiceTypeFlag_keys)
  show "(\<forall>x \<in> set (Servers s). srvValidate x \<noteq> Some InvalidServiceScheduler) \<and>
    Type s \<in> serviceTypeNames
      \<longrightarrow> (Validate srvValidate s = Some InvalidServiceScheduler
             \<longleftrightarrow> Scheduler s \<notin> serviceSchedulerNames)"
    using Validate_servers_not [of "Servers s" srvValidate InvalidServiceScheduler "Port s"]
    by (auto simp add: Validate_def ServiceTypeFlag_keys ServiceSchedulerFlag_keys)
qed

theorem Validate_cascade_witness:
  "Validate exValidate (exService\<lparr>Type := ''sctp''\<rparr>) = Some InvalidServiceType \<and>
   Validate exValidate (exService\<lparr>Scheduler := ''fifo''\<rparr>) = Some InvalidServiceScheduler \<and>
   Validate exValidate (exService\<lparr>Type := ''sctp'', Scheduler := ''fifo''\<rparr>)
     = Some InvalidServiceType \<and>
   Validate exValidate exService = None \<and>
   Validate exValidate (exService\<lparr>Type := [], Scheduler := []\<rparr>) = None \<and>
   Validate exValidate
       (exService\<lparr>Servers := [exServerA, exServerM, exServerB\<lparr>Forwarder := ''x''\<rparr>,
                                exServerB\<lparr>Server.Port := 81\<rparr>]\<rparr>)
     = Some (OtherError ''Invalid Server Forwarder'') \<and>
   Validate exValidate
       (exService\<lparr>Servers := [exServerA, exServerB\<lparr>Server.Port := 81\<rparr>,
                                exServerB\<lparr>Forwarder := ''x''\<rparr>]\<rparr>)
     = Some InvalidServerPort"
  using Validate_cascade [of "exService\<lparr>Type := ''sctp''\<rparr>" exValidate]
    Validate_cascade [of "exService\<lparr>Scheduler := ''fifo''\<rparr>" exValidate]
    Validate_cascade [of exService exValidate]
  by (simp add: Validate_def ServiceTypeFlag_def ServiceSchedulerFlag_def
      exService_def exServerA_def exServerB_def exServerM_def exValidate_def)

section \<open>The port rule\<close>

text \<open>
  The claim C3 as stated fails: a service of an unknown type that holds a server whose
  forwarder is not \<open>m\<close> and whose port differs is refused with \<open>InvalidServiceType\<close>, not
  with \<open>InvalidServerPort\<close>.
\<close>

theorem port_rule_counterexample:
  "Forwarder \<lparr>Server.Host = ''10.0.0.2'', Server.Port = 8080, Forwarder = ''g''\<rparr> \<noteq> ''m'' \<and>
   Server.Port \<lparr>Server.Host = ''10.0.0.2'', Server.Port = 8080, Forwarder = ''g''\<rparr>
     \<noteq> Port \<lparr>Host = ''10.0.0.1'', Port = 80, Type = ''sctp'', Scheduler = ''rr'',
               Persistence = 0, Netmask = [],
               Servers = [\<lparr>Server.Host = ''10.0.0.2'', Server.Port = 8080, Forwarder = ''g''\<rparr>]\<rparr> \<and>
   \<lparr>Server.Host = ''10.0.0.2'', Server.Port = 8080, Forwarder = ''g''\<rparr>
     \<in> set (Servers \<lparr>Host = ''10.0.0.1'', Port = 80, Type = ''sctp'', Scheduler = ''rr'',
               Persistence = 0, Netmask = [],
               Servers = [\<lparr>Server.Host = ''10.0.0.2'', Server.Port = 8080, Forwarder = ''g''\<rparr>]\<rparr>) \<and>
   Validate (\<lambda>server. None)
     \<lparr>Host = ''10.0.0.1'', Port = 80, Type = ''sctp'', Scheduler = ''rr'',
      Persistence = 0, Netmask = [],
      Servers = [\<lparr>Server.Host = ''10.0.0.2'', Server.Port = 8080, Forwarder = ''g''\<rparr>]\<rparr>
     \<noteq> Some InvalidServerPort"
  by (simp add: Validate_def ServiceTypeFlag_def)

text \<open>
  C3, amended. For a server that passes its own validation, whose forwarder is not
  \<open>m\<close> and whose port differs from the service's: \<^verbatim>\<open>AddServer\<close> and \<^verbatim>\<open>EditServer\<close>
  return \<open>InvalidServerPort\<close>, invoke nothing and change nothing; \<^verbatim>\<open>Validate\<close> returns
  \<open>InvalidServerPort\<close> when the type and the scheduler are known and no server before
  this one fails. A server with forwarder \<open>m\<close> that passes its own validation is never
  refused for its port: \<^verbatim>\<open>Validate\<close> returns nil when nothing else fails, and
  \<^verbatim>\<open>AddServer\<close> and \<^verbatim>\<open>EditServer\<close> return nil when the tool succeeds.
\<close>

theorem port_equality_rule:
  "(Forwarder r \<noteq> ''m'' \<and> Server.Port r \<noteq> Port s \<and> srvValidate r = None \<longrightarrow>
      AddServer backend srvValidate srvString r s = (Some InvalidServerPort, s, []) \<and>
      EditServer backend srvValidate srvString r s = (Some InvalidServerPort, s, []) \<and>
      (\<forall>pre post.
         Servers s = pre @ r # post \<and>
         Type s \<in> serviceTypeNames \<and> Scheduler s \<in> serviceSchedulerNames \<and>
         (\<forall>x \<in> set pre. serverError srvValidate (Port s) x = None)
         \<longrightarrow> Validate srvValidate s = Some InvalidServerPort)) \<and>
   (Forwarder r = ''m'' \<and> srvValidate r = None \<longrightarrow>
      serverError srvValidate (Port s) r = None \<and>
      (\<forall>pre post.
         Servers s = pre @ r # post \<and>
         Type s \<in> serviceTypeNames \<and> Scheduler s \<in> serviceSchedulerNames \<and>
         (\<forall>x \<in> set pre \<union> set post. serverError srvValidate (Port s) x = None)
         \<longrightarrow> Validate srvValidate s = None) \<and>
      ((\<forall>args. backend ''ipvsadm'' args = None) \<longrightarrow>
         fst (AddServer backend srvValidate srvString r s) = None \<and>
         fst (EditServer backend srvValidate srvString r s) = None))"
proof (intro conjI impI allI)
  assume a: "Forwarder r \<noteq> ''m'' \<and> Server.Port r \<noteq> Port s \<and> srvValidate r = None"
  then show "AddServer backend srvValidate srvString r s = (Some InvalidServerPort, s, [])"
    by (auto simp: AddServer_def)
  from a show "EditServer backend srvValidate srvString r s = (Some InvalidServerPort, s, [])"
    by (auto simp: EditServer_def)
  fix pre post
  assume b: "Servers s = pre @ r # post \<and>
         Type s \<in> serviceTypeNames \<and> Scheduler s \<in> serviceSchedulerNames \<and>
         (\<forall>x \<in> set pre. serverError srvValidate (Port s) x = None)"
  from a have "serverError srvValidate (Port s) r = Some InvalidServerPort"
    by (auto simp: serverError_def)
  with b show "Validate srvValidate s = Some InvalidServerPort"
    by (simp add: Validate_def ServiceTypeFlag_keys ServiceSchedulerFlag_keys
        Validate_servers_first_failure)
next
  assume a: "Forwarder r = ''m'' \<and> srvValidate r = None"
  then show e: "serverError srvValidate (Port s) r = None"
    by (simp add: serverError_def)
  {
    fix pre post
    assume b: "Servers s = pre @ r # post \<and>
         Type s \<in> serviceTypeNames \<and> Scheduler s \<in> serviceSchedulerNames \<and>
         (\<forall>x \<in> set pre \<union> set post. serverError srvValidate (Port s) x = None)"
    with e have "\<forall>x \<in> set (Servers s). serverError srvValidate (Port s) x = None"
      by auto
    with b show "Validate srvValidate s = None"
      by (simp add: Validate_def ServiceTypeFlag_keys ServiceSchedulerFlag_keys
          Validate_servers_all_pass)
  }
  assume c: "\<forall>args. backend ''ipvsadm'' args = None"
  from a c show "fst (AddServer backend srvValidate srvString r s) = None"
    by (auto simp: AddServer_def Let_def)
  from a c show "fst (EditServer backend srvValidate srvString r s) = None"
    by (auto simp: EditServer_def Let_def split: option.splits)
qed

theorem port_equality_rule_witness:
  "Forwarder (exServerB\<lparr>Server.Port := 8080\<rparr>) \<noteq> ''m'' \<and>
   Server.Port (exServerB\<lparr>Server.Port := 8080\<rparr>) \<noteq> Port exService \<and>
   exValidate (exServerB\<lparr>Server.Port := 8080\<rparr>) = None \<and>
   AddServer backendOk exValidate exString (exServerB\<lparr>Server.Port := 8080\<rparr>) exService
     = (Some InvalidServerPort, exService, []) \<and>
   EditServer backendOk exValidate exString (exServerB\<lparr>Server.Port := 8080\<rparr>) exService
     = (Some InvalidServerPort, exService, []) \<and>
   Validate exValidate (exService\<lparr>Servers := [exServerA, exServerB\<lparr>Server.Port := 8080\<rparr>]\<rparr>)
     = Some InvalidServerPort \<and>
   Forwarder exServerM = ''m'' \<and> Server.Port exServerM \<noteq> Port exService \<and>
   Validate exValidate (exService\<lparr>Servers := [exServerA, exServerM]\<rparr>) = None \<and>
   AddServer backendOk exValidate exString exServerM exService
     = (None, exService\<lparr>Servers := [exServerA, exServerM]\<rparr>,
        [(''ipvsadm'', [''-a'', ''-t'', ''10.0.0.1:80'', ''-r'', ''10.0.0.4:8080'', ''-m''])])"
  using port_equality_rule [where r = "exServerB\<lparr>Server.Port := 8080\<rparr>" and s = exService
      and srvValidate = exValidate and srvString = exString and backend = backendOk]
    port_equality_rule [where r = exServerM and s = exService
      and srvValidate = exValidate and srvString = exString and backend = backendOk]
  by (simp add: AddServer_def EditServer_def FindServer_def Validate_def Let_def
      ServiceTypeFlag_def ServiceSchedulerFlag_def
      exService_def exServerA_def exServerB_def exServerM_def exValidate_def exString_def
      backendOk_def getHostPort_def mapIndex_def
      fmt_d_def digitChar_def char_of_eq_iff Split.simps)

section \<open>Parsing\<close>

text \<open>
  C10. \<^verbatim>\<open>parseHostPort\<close> always returns a host and a port: the whole input with port
  0 when the input does not split into host and port or when the port part is not an
  integer, and the split host with the numeric port otherwise.
\<close>

theorem parseHostPort_never_fails:
  "(SplitHostPort hostPort = None \<longrightarrow> parseHostPort hostPort = (hostPort, 0)) \<and>
   (\<forall>host port. SplitHostPort hostPort = Some (host, port) \<and> Atoi port = None
      \<longrightarrow> parseHostPort hostPort = (hostPort, 0)) \<and>
   (\<forall>host port n. SplitHostPort hostPort = Some (host, port) \<and> Atoi port = Some n
      \<longrightarrow> parseHostPort hostPort = (host, n))"
  by (simp add: parseHostPort_def)

theorem parseHostPort_never_fails_witness:
  "SplitHostPort ''10.0.0.1'' = None \<and>
   parseHostPort ''10.0.0.1'' = (''10.0.0.1'', 0) \<and>
   SplitHostPort ''10.0.0.1:http'' = Some (''10.0.0.1'', ''http'') \<and> Atoi ''http'' = None \<and>
   parseHostPort ''10.0.0.1:http'' = (''10.0.0.1:http'', 0) \<and>
   SplitHostPort ''10.0.0.1:80'' = Some (''10.0.0.1'', ''80'') \<and> Atoi ''80'' = Some 80 \<and>
   parseHostPort ''10.0.0.1:80'' = (''10.0.0.1'', 80) \<and>
   SplitHostPort ''[fe80::1]:443'' = Some (''fe80::1'', ''443'') \<and>
   parseHostPort ''[fe80::1]:443'' = (''fe80::1'', 443) \<and>
   parseHostPort ''fe80::1:443'' = (''fe80::1:443'', 0)"
proof -
  have a: "SplitHostPort ''10.0.0.1'' = None"
    by (simp add: SplitHostPort_def)
  have b: "SplitHostPort ''10.0.0.1:http'' = Some (''10.0.0.1'', ''http'') \<and> Atoi ''http'' = None"
    by (simp add: SplitHostPort_def Atoi_def digitVal_def)
  have c: "SplitHostPort ''10.0.0.1:80'' = Some (''10.0.0.1'', ''80'') \<and> Atoi ''80'' = Some 80"
    by (simp add: SplitHostPort_def Atoi_def digitVal_def)
  have d: "SplitHostPort ''[fe80::1]:443'' = Some (''fe80::1'', ''443'') \<and> Atoi ''443'' = Some 443"
    by (simp add: SplitHostPort_def Atoi_def digitVal_def)
  have e: "SplitHostPort ''fe80::1:443'' = None"
    by (simp add: SplitHostPort_def)
  from a b c d e
    parseHostPort_never_fails [of "''10.0.0.1''"]
    parseHostPort_never_fails [of "''10.0.0.1:http''"]
    parseHostPort_never_fails [of "''10.0.0.1:80''"]
    parseHostPort_never_fails [of "''[fe80::1]:443''"]
    parseHostPort_never_fails [of "''fe80::1:443''"]
  show ?thesis
    by simp
qed

text \<open>
  C6. \<^verbatim>\<open>parseService\<close> is not total: when an option token is the last token of the
  input, reading \<^verbatim>\<open>exploded[i+1]\<close> is out of range and the function panics instead
  of returning a service.
\<close>

theorem parseService_trailing_flag_panics:
  "\<forall>tok \<in> optionTokens. \<forall>line.
      parseService tok = Inl IndexOutOfRange \<and>
      parseService (line @ '' '' @ tok) = Inl IndexOutOfRange"
proof (intro ballI allI)
  fix tok line
  assume t: "tok \<in> optionTokens"
  then have sp: "CHR '' '' \<notin> set tok"
    by (auto simp: optionTokens_def)
  have one: "parseService tok = Inl IndexOutOfRange"
    using parseService_loop_trailing_flag [OF t, of "[]"] sp
    by (simp add: parseService_def Split_no_sep del: parseService_loop.simps)
  have two: "parseService (line @ '' '' @ tok) = Inl IndexOutOfRange"
    using parseService_loop_trailing_flag [OF t, of "Split line CHR '' ''"] sp
    by (simp add: parseService_def Split_append Split_no_sep del: parseService_loop.simps)
  from one two
  show "parseService tok = Inl IndexOutOfRange \<and>
      parseService (line @ '' '' @ tok) = Inl IndexOutOfRange"
    by simp
qed

theorem parseService_trailing_flag_panics_witness:
  "''-t'' \<in> optionTokens \<and> ''-p'' \<in> optionTokens \<and>
   parseService ''-t'' = Inl IndexOutOfRange \<and>
   parseService ''-A -t 10.0.0.1:80 -s rr -p'' = Inl IndexOutOfRange"
proof -
  have a: "''-t'' \<in> optionTokens" and b: "''-p'' \<in> optionTokens"
    by (simp_all add: optionTokens_def)
  from parseService_trailing_flag_panics a
  have c: "parseService ''-t'' = Inl IndexOutOfRange"
    by blast
  from parseService_trailing_flag_panics b
  have "parseService (''-A -t 10.0.0.1:80 -s rr'' @ '' '' @ ''-p'') = Inl IndexOutOfRange"
    by blast
  with a b c show ?thesis
    by simp
qed

end
